theory Spec2Isabelle
  imports Complex_Main "HOL-Library.Multiset"
begin

section \<open>Tables, JSON values and exceptions\<close>

text \<open>
  The data analysis server (\<^verbatim>\<open>data_analysis_server.py\<close>) keeps pandas data frames in
  \<^verbatim>\<open>self.datasets\<close> and a list of dictionaries in \<^verbatim>\<open>self.analysis_history\<close>.
  A data frame is modelled as its column labels with their dtypes and its rows of scalar
  cells. Floating-point numbers are idealised as rationals; \<open>Null\<close> stands for NaN/None.
  The dtypes covered are the numeric ones (int64/float64), \<open>object\<close> (text) and \<open>bool\<close>.
  Column labels of a frame are taken to be pairwise distinct strings, as the pandas readers
  produce them.
\<close>

datatype cell = Null | Num rat | Str string | Boolv bool

datatype dtype = Numeric | Object | Boolean

record dataframe =
  columns :: "(string \<times> dtype) list"
  rows :: "cell list list"

datatype json = JNull | JBool bool | JNum rat | JStr string
  | JArr "json list" | JObj "(string \<times> json) list"

text \<open>Python exceptions that the handler body can raise, with the library's ones lumped.\<close>

datatype exn = KeyError string | TypeError string | ValueError string
  | ZeroDivisionError | LibraryError string

text \<open>
  The argument dictionary of a tool call. Each property, when present, has the JSON type
  its \<^verbatim>\<open>inputSchema\<close> declares; any property may be absent, and strings are not
  restricted to enum values, because the handler checks neither. The items of
  \<^verbatim>\<open>conditions\<close> are declared only as objects, so their entries are arbitrary JSON.
\<close>

record arguments =
  arg_path :: "string option"
  arg_name :: "string option"
  arg_delimiter :: "string option"
  arg_columns :: "string list option"
  arg_include_percentiles :: "bool option"
  arg_method :: "string option"
  arg_threshold :: "rat option"
  arg_group_by :: "string option"
  arg_agg_columns :: "string list option"
  arg_operations :: "string list option"
  arg_focus :: "string option"
  arg_format :: "string option"
  arg_output_path :: "string option"
  arg_conditions :: "(string \<rightharpoonup> json) list option"
  arg_new_name :: "string option"

text \<open>
  What lies outside the repository is a parameter of the model: the file system, the clock,
  the pandas readers and writers, the correlation and group-by kernels, the element-wise
  comparison of a column with a JSON value, and \<^verbatim>\<open>pd.to_numeric\<close>.
  \<open>corr\<close> yields the entry at a pair of positions of the square matrix over the numeric
  columns (\<open>None\<close> is NaN).
\<close>

record env =
  pandas_available :: bool
  now :: string
  path_exists :: "string \<Rightarrow> bool"
  read_csv :: "string \<Rightarrow> string \<Rightarrow> exn + dataframe"
  read_json :: "string \<Rightarrow> exn + dataframe"
  corr :: "dataframe \<Rightarrow> string \<Rightarrow> exn + (nat \<Rightarrow> nat \<Rightarrow> rat option)"
  groupby_agg :: "dataframe \<Rightarrow> string \<Rightarrow> string list \<Rightarrow> string list \<Rightarrow> exn + string"
  series_cmp :: "string \<Rightarrow> cell list \<Rightarrow> json \<Rightarrow> exn + bool list"
  to_numeric_ok :: "cell list \<Rightarrow> bool"
  mkdir_parents :: "string \<Rightarrow> exn option"
  write_export :: "string \<Rightarrow> string \<Rightarrow> dataframe \<Rightarrow> exn option"

subsection \<open>Frame primitives\<close>

definition names :: "dataframe \<Rightarrow> string list" where
  "names df = map fst (columns df)"

definition shape :: "dataframe \<Rightarrow> nat \<times> nat" where
  "shape df = (length (rows df), length (columns df))"

definition cell_at :: "cell list \<Rightarrow> nat \<Rightarrow> cell" where
  "cell_at r j = (if j < length r then r ! j else Null)"

fun index_of :: "'a \<Rightarrow> 'a list \<Rightarrow> nat option" where
  "index_of x [] = None"
| "index_of x (y # ys) =
     (if x = y then Some 0 else map_option Suc (index_of x ys))"

definition series_at :: "dataframe \<Rightarrow> nat \<Rightarrow> cell list" where
  "series_at df j = map (\<lambda>r. cell_at r j) (rows df)"

text \<open>\<^verbatim>\<open>df[col]\<close> for a label that is among the columns.\<close>

definition series :: "dataframe \<Rightarrow> string \<Rightarrow> cell list" where
  "series df c = (case index_of c (names df) of Some j \<Rightarrow> series_at df j | None \<Rightarrow> [])"

definition take_cols :: "nat list \<Rightarrow> dataframe \<Rightarrow> dataframe" where
  "take_cols js df =
     \<lparr>columns = map (\<lambda>j. columns df ! j) js,
      rows = map (\<lambda>r. map (cell_at r) js) (rows df)\<rparr>"

text \<open>\<^verbatim>\<open>df.select_dtypes(include=[np.number])\<close>\<close>

definition numeric_idx :: "dataframe \<Rightarrow> nat list" where
  "numeric_idx df = filter (\<lambda>j. snd (columns df ! j) = Numeric) [0..<length (columns df)]"

definition select_dtypes_number :: "dataframe \<Rightarrow> dataframe" where
  "select_dtypes_number df = take_cols (numeric_idx df) df"

text \<open>\<^verbatim>\<open>df[columns]\<close> with a list of labels: a label that is no column raises KeyError.\<close>

definition getitem_list :: "dataframe \<Rightarrow> string list \<Rightarrow> exn + dataframe" where
  "getitem_list df cs =
     (case filter (\<lambda>c. c \<notin> set (names df)) cs of
        [] \<Rightarrow> Inr (take_cols (map (\<lambda>c. the (index_of c (names df))) cs) df)
      | c # _ \<Rightarrow> Inl (KeyError c))"

text \<open>\<^verbatim>\<open>df[mask]\<close> with a boolean mask: the rows whose mask entry is true.\<close>

definition boolean_index :: "dataframe \<Rightarrow> bool list \<Rightarrow> dataframe" where
  "boolean_index df msk = df\<lparr>rows := map fst (filter snd (zip (rows df) msk))\<rparr>"

text \<open>
  The shape pandas guarantees: distinct labels, and every row as long as the list of columns.
\<close>

definition well_formed :: "dataframe \<Rightarrow> bool" where
  "well_formed df =
     (distinct (names df) \<and> list_all (\<lambda>r. length r = length (columns df)) (rows df))"

section \<open>Server state and results\<close>

datatype history_record =
    LoadRecord string string "nat \<times> nat" "string list"
  | InsightsRecord string string string

record server =
  datasets :: "string \<rightharpoonup> dataframe"
  analysis_history :: "history_record list"

section \<open>\<^verbatim>\<open>filter_data\<close>\<close>

text \<open>
  \<^verbatim>\<open>col in df.columns\<close>: hashing a list or a dictionary raises TypeError; a hashable value
  that is no string is no column label.
\<close>

fun col_in_columns :: "json \<Rightarrow> dataframe \<Rightarrow> exn + bool" where
  "col_in_columns (JStr c) df = Inr (c \<in> set (names df))"
| "col_in_columns (JArr _) df = Inl (TypeError ''unhashable type'')"
| "col_in_columns (JObj _) df = Inl (TypeError ''unhashable type'')"
| "col_in_columns _ df = Inr False"

definition filter_operators :: "string list" where
  "filter_operators = [''=='', ''!='', ''>'', ''<'', ''>='', ''<='']"

text \<open>One iteration of the loop over \<^verbatim>\<open>conditions\<close>.\<close>

definition apply_condition :: "env \<Rightarrow> dataframe \<Rightarrow> (string \<rightharpoonup> json) \<Rightarrow> exn + dataframe" where
  "apply_condition e df condition =
     (case (condition ''column'', condition ''operator'', condition ''value'') of
        (Some col, Some op, Some val) \<Rightarrow>
          (case col_in_columns col df of
             Inl x \<Rightarrow> Inl x
           | Inr False \<Rightarrow> Inr df
           | Inr True \<Rightarrow>
               (case (col, op) of
                  (JStr c, JStr opr) \<Rightarrow>
                    if opr \<in> set filter_operators
                    then (case series_cmp e opr (series df c) val of
                            Inl x \<Rightarrow> Inl x
                          | Inr msk \<Rightarrow> Inr (boolean_index df msk))
                    else Inr df
                | _ \<Rightarrow> Inr df))
      | _ \<Rightarrow> Inr df)"

fun apply_conditions :: "env \<Rightarrow> dataframe \<Rightarrow> (string \<rightharpoonup> json) list \<Rightarrow> exn + dataframe" where
  "apply_conditions e df [] = Inr df"
| "apply_conditions e df (c # cs) =
     (case apply_condition e df c of
        Inl x \<Rightarrow> Inl x
      | Inr df' \<Rightarrow> apply_conditions e df' cs)"


section \<open>Column summaries\<close>

definition isnull_sum :: "cell list \<Rightarrow> nat" where
  "isnull_sum cs = length (filter (\<lambda>c. c = Null) cs)"

text \<open>\<^verbatim>\<open>Series.nunique()\<close> counts the distinct values that are not null.\<close>

definition nunique :: "cell list \<Rightarrow> nat" where
  "nunique cs = length (remdups (filter (\<lambda>c. c \<noteq> Null) cs))"

definition numbers :: "cell list \<Rightarrow> rat list" where
  "numbers cs = concat (map (\<lambda>c. case c of Num v \<Rightarrow> [v] | _ \<Rightarrow> []) cs)"

text \<open>
  \<^verbatim>\<open>Series.quantile(q)\<close> for \<open>0 \<le> q \<le> 1\<close>: linear interpolation between the order
  statistics of the values that are not null; NaN (\<open>None\<close>) when there is none.
\<close>

definition quantile :: "cell list \<Rightarrow> rat \<Rightarrow> rat option" where
  "quantile cs q =
     (let xs = sort (numbers cs); n = length xs in
      if n = 0 then None
      else let h = of_nat (n - 1) * q; lo = nat \<lfloor>h\<rfloor> in
           Some (if Suc lo < n then xs ! lo + (h - of_nat lo) * (xs ! Suc lo - xs ! lo)
                 else xs ! (n - 1)))"

text \<open>\<^verbatim>\<open>round(x, ndigits)\<close>, halves to the even neighbour.\<close>

definition py_round :: "nat \<Rightarrow> rat \<Rightarrow> rat" where
  "py_round ndigits x =
     (let y = x * 10 ^ ndigits; f = \<lfloor>y\<rfloor>; d = y - of_int f in
      of_int (if d < 1 / 2 then f else if 1 / 2 < d then f + 1
              else if even f then f else f + 1) / 10 ^ ndigits)"

section \<open>\<^verbatim>\<open>calculate_statistics\<close>\<close>

text \<open>
  The rows of \<^verbatim>\<open>describe()\<close> that are rational: the standard deviation of a numeric
  column and the \<open>top\<close>/\<open>freq\<close> rows of a categorical one are left out.
\<close>

record numeric_stats =
  st_count :: nat
  st_mean :: "rat option"
  st_min :: "rat option"
  st_percentiles :: "(rat \<times> rat option) list"
  st_max :: "rat option"

record categorical_stats =
  ct_count :: nat
  ct_unique :: nat

datatype description =
    NumericDescription "(string \<times> numeric_stats) list"
  | CategoricalDescription "(string \<times> categorical_stats) list"

definition describe_numeric_1d :: "cell list \<Rightarrow> rat list \<Rightarrow> numeric_stats" where
  "describe_numeric_1d cs percentiles =
     (let xs = numbers cs in
      \<lparr>st_count = length xs,
       st_mean = (if xs = [] then None else Some (sum_list xs / of_nat (length xs))),
       st_min = (if xs = [] then None else Some (Min (set xs))),
       st_percentiles = map (\<lambda>q. (q, quantile cs q)) percentiles,
       st_max = (if xs = [] then None else Some (Max (set xs)))\<rparr>)"

definition describe_categorical_1d :: "cell list \<Rightarrow> categorical_stats" where
  "describe_categorical_1d cs =
     \<lparr>ct_count = length cs - isnull_sum cs, ct_unique = nunique cs\<rparr>"

text \<open>
  \<^verbatim>\<open>DataFrame.describe\<close> with its default \<^verbatim>\<open>include=None\<close>: a frame without columns is
  refused; when some column is numeric only the numeric ones are described; a frame
  without numeric columns has all its columns described as categorical data.
\<close>

definition describe :: "dataframe \<Rightarrow> rat list \<Rightarrow> exn + description" where
  "describe df percentiles =
     (if columns df = [] then Inl (ValueError ''Cannot describe a DataFrame without columns'')
      else let data = select_dtypes_number df in
        if columns data = []
        then Inr (CategoricalDescription
               (map (\<lambda>c. (c, describe_categorical_1d (series df c))) (names df)))
        else Inr (NumericDescription
               (map (\<lambda>c. (c, describe_numeric_1d (series data c) percentiles)) (names data))))"


section \<open>\<^verbatim>\<open>find_correlations\<close>\<close>

record corr_entry =
  column1 :: string
  column2 :: string
  correlation :: rat
  strength :: string

record corr_frame =
  corr_columns :: "string list"
  iloc :: "nat \<Rightarrow> nat \<Rightarrow> rat option"

text \<open>The pairs visited by the two nested \<^verbatim>\<open>range\<close> loops, in the order of the visit.\<close>

definition index_pairs :: "nat \<Rightarrow> (nat \<times> nat) list" where
  "index_pairs n = concat (map (\<lambda>i. map (\<lambda>j. (i, j)) [Suc i..<n]) [0..<n])"

definition mk_entry :: "corr_frame \<Rightarrow> nat \<Rightarrow> nat \<Rightarrow> rat \<Rightarrow> corr_entry" where
  "mk_entry m i j corr_val =
     \<lparr>column1 = corr_columns m ! i, column2 = corr_columns m ! j,
      correlation = py_round 3 corr_val,
      strength = (if 7 / 10 \<le> \<bar>corr_val\<bar> then ''Strong'' else ''Moderate'')\<rparr>"

text \<open>A NaN entry fails the comparison with the threshold and is passed over.\<close>

definition high_corr :: "corr_frame \<Rightarrow> rat \<Rightarrow> corr_entry list" where
  "high_corr m threshold =
     concat (map (\<lambda>(i, j). case iloc m i j of
                     Some corr_val \<Rightarrow>
                       if threshold \<le> \<bar>corr_val\<bar> then [mk_entry m i j corr_val] else []
                   | None \<Rightarrow> [])
               (index_pairs (length (corr_columns m))))"

text \<open>
  \<^verbatim>\<open>sorted(high_corr, key=lambda x: abs(x["correlation"]), reverse=True)\<close>: a stable
  sort, descending in the key.
\<close>

definition sorted_high_corr :: "corr_entry list \<Rightarrow> corr_entry list" where
  "sorted_high_corr hc = sort_key (\<lambda>x. - \<bar>correlation x\<bar>) hc"

definition round_frame :: "corr_frame \<Rightarrow> corr_frame" where
  "round_frame m = m\<lparr>iloc := (\<lambda>i j. map_option (py_round 3) (iloc m i j))\<rparr>"

text \<open>The rows of the matrix, as \<^verbatim>\<open>to_string()\<close> prints them under the column labels.\<close>

definition to_table :: "corr_frame \<Rightarrow> rat option list list" where
  "to_table m =
     (let n = length (corr_columns m) in map (\<lambda>i. map (\<lambda>j. iloc m i j) [0..<n]) [0..<n])"


section \<open>\<^verbatim>\<open>data_quality_check\<close>\<close>

text \<open>\<^verbatim>\<open>df.isnull()\<close>: the frame of null flags, row by row.\<close>

definition isnull :: "dataframe \<Rightarrow> bool list list" where
  "isnull df = map (\<lambda>r. map (\<lambda>j. cell_at r j = Null) [0..<length (columns df)]) (rows df)"

text \<open>\<^verbatim>\<open>.sum()\<close> of a boolean frame with \<open>n\<close> columns: one count per column.\<close>

definition frame_sum :: "nat \<Rightarrow> bool list list \<Rightarrow> nat list" where
  "frame_sum n flags = map (\<lambda>j. length (filter (\<lambda>r. r ! j) flags)) [0..<n]"

definition total_missing_values :: "dataframe \<Rightarrow> nat" where
  "total_missing_values df = sum_list (frame_sum (length (columns df)) (isnull df))"

text \<open>
  \<^verbatim>\<open>df.duplicated()\<close> (\<^verbatim>\<open>keep='first'\<close>): a row is flagged when an equal row has been
  seen before it; nulls compare equal here.
\<close>

fun duplicated_from :: "cell list list \<Rightarrow> cell list list \<Rightarrow> bool list" where
  "duplicated_from seen [] = []"
| "duplicated_from seen (r # rs) = (r \<in> set seen) # duplicated_from (r # seen) rs"

definition duplicated :: "dataframe \<Rightarrow> bool list" where
  "duplicated df = duplicated_from [] (map (\<lambda>r. map (cell_at r) [0..<length (columns df)]) (rows df))"

definition duplicate_rows :: "dataframe \<Rightarrow> nat" where
  "duplicate_rows df = length (filter id (duplicated df))"

text \<open>A numpy division: by zero it yields NaN or an infinity, here \<open>None\<close>, and never raises.\<close>

definition np_percent :: "nat \<Rightarrow> nat \<Rightarrow> rat option" where
  "np_percent k n = (if n = 0 then None else Some (of_nat k / of_nat n * 100))"

datatype issue = MostlyMissing string rat | OneUniqueValue string | AllUniqueValues string

definition column_issues :: "dataframe \<Rightarrow> string \<Rightarrow> issue list" where
  "column_issues df col =
     (let s = series df col; n = length (rows df) in
      (if 0 < isnull_sum s \<and> 50 < of_nat (isnull_sum s) / of_nat n * (100::rat)
       then [MostlyMissing col (of_nat (isnull_sum s) / of_nat n * 100)] else [])
      @ (if nunique s = 1 then [OneUniqueValue col] else [])
      @ (if nunique s = n then [AllUniqueValues col] else []))"

record quality_report =
  total_rows :: nat
  total_columns :: nat
  columns_with_missing :: "string list"
  missing_percentages :: "(string \<times> rat option) list"
  q_total_missing_values :: nat
  q_duplicate_rows :: nat
  duplicate_percentage :: "rat option"
  data_types :: "(string \<times> dtype) list"
  unique_values :: "(string \<times> nat) list"
  potential_issues :: "issue list"

definition make_quality_report :: "dataframe \<Rightarrow> quality_report" where
  "make_quality_report df =
     \<lparr>total_rows = length (rows df),
      total_columns = length (columns df),
      columns_with_missing = filter (\<lambda>c. 0 < isnull_sum (series df c)) (names df),
      missing_percentages =
        map (\<lambda>c. (c, map_option (py_round 2) (np_percent (isnull_sum (series df c)) (length (rows df)))))
          (names df),
      q_total_missing_values = total_missing_values df,
      q_duplicate_rows = duplicate_rows df,
      duplicate_percentage = map_option (py_round 2) (np_percent (duplicate_rows df) (length (rows df))),
      data_types = columns df,
      unique_values = map (\<lambda>c. (c, nunique (series df c))) (names df),
      potential_issues = concat (map (column_issues df) (names df))\<rparr>"

section \<open>\<^verbatim>\<open>generate_insights\<close>\<close>

datatype insight =
    OverviewHeader | RecordsFeatures nat nat | DataTypes "(dtype \<times> nat) list"
  | NumericColumns nat
  | OutlierHeader | OutlierLine string nat
  | PatternHeader | HighUniqueness string rat | LowUniqueness string rat
  | RecommendationHeader | AddressMissing "string list"
  | CorrelationAdvice | FeatureSelectionAdvice | ConvertAdvice string

text \<open>
  \<^verbatim>\<open>df.dtypes.value_counts().to_dict()\<close>: the dtypes that occur, each with the number of
  its columns (as a dictionary; the order of the entries is not modelled).
\<close>

definition dtype_counts :: "dataframe \<Rightarrow> (dtype \<times> nat) list" where
  "dtype_counts df =
     filter (\<lambda>(t, k). 0 < k)
       (map (\<lambda>t. (t, length (filter (\<lambda>c. snd c = t) (columns df)))) [Numeric, Object, Boolean])"

definition overview_insights :: "dataframe \<Rightarrow> insight list" where
  "overview_insights df =
     [OverviewHeader,
      RecordsFeatures (length (rows df)) (length (columns df)),
      DataTypes (dtype_counts df)]
     @ (let numeric_cols = names (select_dtypes_number df) in
        if 0 < length numeric_cols then [NumericColumns (length numeric_cols)] else [])"

text \<open>
  The IQR rule on one numeric column. A comparison with NaN is false, so a null cell is no
  outlier and a column without values has none.
\<close>

definition is_outlier :: "rat \<Rightarrow> rat \<Rightarrow> cell \<Rightarrow> bool" where
  "is_outlier Q1 Q3 c =
     (let IQR = Q3 - Q1 in
      case c of Num v \<Rightarrow> v < Q1 - 3 / 2 * IQR \<or> Q3 + 3 / 2 * IQR < v | _ \<Rightarrow> False)"

definition outliers :: "cell list \<Rightarrow> nat" where
  "outliers cs =
     (case (quantile cs (1 / 4), quantile cs (3 / 4)) of
        (Some Q1, Some Q3) \<Rightarrow> length (filter (is_outlier Q1 Q3) cs)
      | _ \<Rightarrow> 0)"

definition outlier_insights :: "dataframe \<Rightarrow> insight list" where
  "outlier_insights df =
     OutlierHeader #
     (let numeric_df = select_dtypes_number df in
      concat (map (\<lambda>col. if 0 < outliers (series numeric_df col)
                          then [OutlierLine col (outliers (series numeric_df col))] else [])
                (names numeric_df)))"

text \<open>
  \<^verbatim>\<open>df[col].nunique() / len(df)\<close> divides two Python integers: on a frame without rows the
  first column raises ZeroDivisionError.
\<close>

definition pattern_insights :: "dataframe \<Rightarrow> exn + insight list" where
  "pattern_insights df =
     (if names df \<noteq> [] \<and> length (rows df) = 0 then Inl ZeroDivisionError
      else Inr (PatternHeader #
        concat (map (\<lambda>col.
                  let unique_ratio = of_nat (nunique (series df col)) / of_nat (length (rows df)) in
                  if 95 / 100 < unique_ratio then [HighUniqueness col unique_ratio]
                  else if unique_ratio < 5 / 100 then [LowUniqueness col unique_ratio]
                  else [])
                (names df))))"

definition recommendation_insights :: "env \<Rightarrow> dataframe \<Rightarrow> insight list" where
  "recommendation_insights e df =
     RecommendationHeader #
     (let missing_cols = filter (\<lambda>c. 0 < isnull_sum (series df c)) (names df) in
      if missing_cols \<noteq> [] then [AddressMissing missing_cols] else [])
     @ (if 1 < length (columns (select_dtypes_number df))
        then [CorrelationAdvice, FeatureSelectionAdvice] else [])
     @ concat (map (\<lambda>col. if map_of (columns df) col = Some Object \<and> to_numeric_ok e (series df col)
                           then [ConvertAdvice col] else [])
                 (names df))"

definition build_insights :: "env \<Rightarrow> dataframe \<Rightarrow> string \<Rightarrow> exn + insight list" where
  "build_insights e df focus =
     (case (if focus \<in> {''patterns'', ''all''} then pattern_insights df else Inr []) of
        Inl x \<Rightarrow> Inl x
      | Inr patterns \<Rightarrow>
          Inr ((if focus \<in> {''overview'', ''all''} then overview_insights df else [])
             @ (if focus \<in> {''outliers'', ''all''} then outlier_insights df else [])
             @ patterns
             @ (if focus \<in> {''recommendations'', ''all''} then recommendation_insights e df else [])))"

text \<open>The \<^verbatim>\<open>enum\<close> that \<^verbatim>\<open>handle_list_tools\<close> declares for \<^verbatim>\<open>focus\<close>, and its default.\<close>

definition focus_enum :: "string list" where
  "focus_enum = [''overview'', ''outliers'', ''patterns'', ''recommendations'']"

definition focus_default :: string where
  "focus_default = ''overview''"

definition schema_accepts_focus :: "string \<Rightarrow> bool" where
  "schema_accepts_focus v = (v \<in> set focus_enum)"


section \<open>The tool handler\<close>

text \<open>
  The single \<^verbatim>\<open>TextContent\<close> a call returns, by what its text says. The first seven are
  the error texts; \<open>ErrorCaught\<close> is the text \<^verbatim>\<open>Error: ...\<close> of the \<^verbatim>\<open>except\<close> clause.
\<close>

datatype response =
    PandasRequired
  | FileNotFound string
  | UnsupportedFormat
  | DatasetNotFound string
  | ColumnNotFound string
  | UnknownTool string
  | ErrorCaught exn
  | Loaded string "nat \<times> nat" "string list"
  | DatasetInformation string "nat \<times> nat" "(string \<times> dtype) list" "(string \<times> nat) list"
      "(string \<times> nat) list" "cell list list"
  | DescriptiveStatistics string description
  | CorrelationAnalysis string rat "corr_entry list" "string list" "rat option list list"
  | GroupAnalysis string string string
  | DataQualityReport string quality_report
  | DataInsights string "insight list"
  | Exported string string string
  | Filtered string string "nat \<times> nat" "nat \<times> nat" nat

definition is_error :: "response \<Rightarrow> bool" where
  "is_error r = (case r of
       PandasRequired \<Rightarrow> True | FileNotFound _ \<Rightarrow> True | UnsupportedFormat \<Rightarrow> True
     | DatasetNotFound _ \<Rightarrow> True | ColumnNotFound _ \<Rightarrow> True | UnknownTool _ \<Rightarrow> True
     | ErrorCaught _ \<Rightarrow> True | _ \<Rightarrow> False)"

text \<open>
  Each branch of \<^verbatim>\<open>handle_call_tool\<close> runs on the server state and ends in a raised
  exception (\<open>Inl\<close>) or a returned text (\<open>Inr\<close>), together with the state it leaves.
\<close>

type_synonym tool = "env \<Rightarrow> arguments \<Rightarrow> server \<Rightarrow> (exn + response) \<times> server"

definition endswith :: "string \<Rightarrow> string \<Rightarrow> bool" where
  "endswith s suf = (length suf \<le> length s \<and> drop (length s - length suf) s = suf)"

definition load_dataset :: tool where
  "load_dataset e arguments s =
     (case arg_path arguments of
        None \<Rightarrow> (Inl (KeyError ''path''), s)
      | Some path \<Rightarrow>
     (case arg_name arguments of
        None \<Rightarrow> (Inl (KeyError ''name''), s)
      | Some dataset_name \<Rightarrow>
     (let delimiter = (case arg_delimiter arguments of None \<Rightarrow> '','' | Some d \<Rightarrow> d) in
      if \<not> path_exists e path then (Inr (FileNotFound path), s)
      else (case (if endswith path ''.csv'' then Some (read_csv e path delimiter)
                  else if endswith path ''.json'' then Some (read_json e path)
                  else None) of
              None \<Rightarrow> (Inr UnsupportedFormat, s)
            | Some (Inl x) \<Rightarrow> (Inl x, s)
            | Some (Inr df) \<Rightarrow>
                (Inr (Loaded dataset_name (shape df) (names df)),
                 s\<lparr>datasets := (datasets s)(dataset_name \<mapsto> df),
                   analysis_history := analysis_history s
                     @ [LoadRecord dataset_name (now e) (shape df) (names df)]\<rparr>)))))"

definition dataset_info :: tool where
  "dataset_info e arguments s =
     (case arg_name arguments of
        None \<Rightarrow> (Inl (KeyError ''name''), s)
      | Some dataset_name \<Rightarrow>
     (case datasets s dataset_name of
        None \<Rightarrow> (Inr (DatasetNotFound dataset_name), s)
      | Some df \<Rightarrow>
          (Inr (DatasetInformation dataset_name (shape df) (columns df)
                  (map (\<lambda>c. (c, isnull_sum (series df c))) (names df))
                  (map (\<lambda>c. (c, nunique (series df c))) (names df))
                  (take 5 (rows df))), s)))"

definition calculate_statistics :: tool where
  "calculate_statistics e arguments s =
     (case arg_name arguments of
        None \<Rightarrow> (Inl (KeyError ''name''), s)
      | Some dataset_name \<Rightarrow>
     (let cols = arg_columns arguments;
          include_percentiles =
            (case arg_include_percentiles arguments of None \<Rightarrow> True | Some b \<Rightarrow> b) in
     (case datasets s dataset_name of
        None \<Rightarrow> (Inr (DatasetNotFound dataset_name), s)
      | Some df \<Rightarrow>
          (case (case cols of
                   Some (c # cs) \<Rightarrow> getitem_list df (c # cs)
                 | _ \<Rightarrow> Inr (select_dtypes_number df)) of
             Inl x \<Rightarrow> (Inl x, s)
           | Inr df_subset \<Rightarrow>
               (case describe df_subset
                       (if include_percentiles then [1 / 4, 1 / 2, 3 / 4, 9 / 10, 95 / 100]
                        else [1 / 4, 1 / 2, 3 / 4]) of
                  Inl x \<Rightarrow> (Inl x, s)
                | Inr stats \<Rightarrow> (Inr (DescriptiveStatistics dataset_name stats), s))))))"

definition find_correlations :: tool where
  "find_correlations e arguments s =
     (case arg_name arguments of
        None \<Rightarrow> (Inl (KeyError ''name''), s)
      | Some dataset_name \<Rightarrow>
     (let method = (case arg_method arguments of None \<Rightarrow> ''pearson'' | Some m \<Rightarrow> m);
          threshold = (case arg_threshold arguments of None \<Rightarrow> 1 / 2 | Some t \<Rightarrow> t) in
     (case datasets s dataset_name of
        None \<Rightarrow> (Inr (DatasetNotFound dataset_name), s)
      | Some df \<Rightarrow>
          (let numeric_df = select_dtypes_number df in
          (case corr e numeric_df method of
             Inl x \<Rightarrow> (Inl x, s)
           | Inr entries \<Rightarrow>
               (let corr_matrix = \<lparr>corr_columns = names numeric_df, iloc = entries\<rparr> in
                (Inr (CorrelationAnalysis method threshold
                        (sorted_high_corr (high_corr corr_matrix threshold))
                        (corr_columns corr_matrix) (to_table (round_frame corr_matrix))), s)))))))"

definition group_analysis :: tool where
  "group_analysis e arguments s =
     (case arg_name arguments of
        None \<Rightarrow> (Inl (KeyError ''name''), s)
      | Some dataset_name \<Rightarrow>
     (case arg_group_by arguments of
        None \<Rightarrow> (Inl (KeyError ''group_by''), s)
      | Some group_by \<Rightarrow>
     (let agg_columns = arg_agg_columns arguments;
          operations =
            (case arg_operations arguments of None \<Rightarrow> [''mean'', ''count''] | Some ops \<Rightarrow> ops) in
     (case datasets s dataset_name of
        None \<Rightarrow> (Inr (DatasetNotFound dataset_name), s)
      | Some df \<Rightarrow>
          if group_by \<notin> set (names df) then (Inr (ColumnNotFound group_by), s)
          else (case groupby_agg e df group_by
                       (case agg_columns of Some (c # cs) \<Rightarrow> c # cs
                        | _ \<Rightarrow> names (select_dtypes_number df))
                       operations of
                  Inl x \<Rightarrow> (Inl x, s)
                | Inr df_agg \<Rightarrow> (Inr (GroupAnalysis dataset_name group_by df_agg), s))))))"

definition data_quality_check :: tool where
  "data_quality_check e arguments s =
     (case arg_name arguments of
        None \<Rightarrow> (Inl (KeyError ''name''), s)
      | Some dataset_name \<Rightarrow>
     (case datasets s dataset_name of
        None \<Rightarrow> (Inr (DatasetNotFound dataset_name), s)
      | Some df \<Rightarrow> (Inr (DataQualityReport dataset_name (make_quality_report df)), s)))"

definition generate_insights :: tool where
  "generate_insights e arguments s =
     (case arg_name arguments of
        None \<Rightarrow> (Inl (KeyError ''name''), s)
      | Some dataset_name \<Rightarrow>
     (let focus = (case arg_focus arguments of None \<Rightarrow> focus_default | Some f \<Rightarrow> f) in
     (case datasets s dataset_name of
        None \<Rightarrow> (Inr (DatasetNotFound dataset_name), s)
      | Some df \<Rightarrow>
          (case build_insights e df focus of
             Inl x \<Rightarrow> (Inl x, s)
           | Inr insights \<Rightarrow>
               (Inr (DataInsights dataset_name insights),
                s\<lparr>analysis_history := analysis_history s
                    @ [InsightsRecord dataset_name focus (now e)]\<rparr>)))))"

definition export_analysis :: tool where
  "export_analysis e arguments s =
     (case arg_name arguments of
        None \<Rightarrow> (Inl (KeyError ''name''), s)
      | Some dataset_name \<Rightarrow>
     (let format_type = (case arg_format arguments of None \<Rightarrow> ''json'' | Some f \<Rightarrow> f) in
     (case arg_output_path arguments of
        None \<Rightarrow> (Inl (KeyError ''output_path''), s)
      | Some output_path \<Rightarrow>
     (case datasets s dataset_name of
        None \<Rightarrow> (Inr (DatasetNotFound dataset_name), s)
      | Some df \<Rightarrow>
          (case mkdir_parents e output_path of
             Some x \<Rightarrow> (Inl x, s)
           | None \<Rightarrow>
               (case (if format_type \<in> {''csv'', ''json'', ''html''}
                      then write_export e format_type output_path df else None) of
                  Some x \<Rightarrow> (Inl x, s)
                | None \<Rightarrow> (Inr (Exported dataset_name output_path format_type), s)))))))"

definition filter_data :: tool where
  "filter_data e arguments s =
     (case arg_name arguments of
        None \<Rightarrow> (Inl (KeyError ''name''), s)
      | Some dataset_name \<Rightarrow>
     (case arg_conditions arguments of
        None \<Rightarrow> (Inl (KeyError ''conditions''), s)
      | Some conditions \<Rightarrow>
     (case arg_new_name arguments of
        None \<Rightarrow> (Inl (KeyError ''new_name''), s)
      | Some new_name \<Rightarrow>
     (case datasets s dataset_name of
        None \<Rightarrow> (Inr (DatasetNotFound dataset_name), s)
      | Some df0 \<Rightarrow>
          (case apply_conditions e df0 conditions of
             Inl x \<Rightarrow> (Inl x, s)
           | Inr df \<Rightarrow>
               (Inr (Filtered dataset_name new_name (shape df0) (shape df) (length conditions)),
                s\<lparr>datasets := (datasets s)(new_name \<mapsto> df)\<rparr>))))))"

text \<open>The \<^verbatim>\<open>if\<close>/\<^verbatim>\<open>elif\<close> chain on the tool name, inside the \<^verbatim>\<open>try\<close>.\<close>

definition tool_body :: "env \<Rightarrow> string \<Rightarrow> arguments \<Rightarrow> server \<Rightarrow> (exn + response) \<times> server" where
  "tool_body e name arguments s =
     (if name = ''load_dataset'' then load_dataset e arguments s
      else if name = ''dataset_info'' then dataset_info e arguments s
      else if name = ''calculate_statistics'' then calculate_statistics e arguments s
      else if name = ''find_correlations'' then find_correlations e arguments s
      else if name = ''group_analysis'' then group_analysis e arguments s
      else if name = ''data_quality_check'' then data_quality_check e arguments s
      else if name = ''generate_insights'' then generate_insights e arguments s
      else if name = ''export_analysis'' then export_analysis e arguments s
      else if name = ''filter_data'' then filter_data e arguments s
      else (Inr (UnknownTool name), s))"

text \<open>
  \<^verbatim>\<open>handle_call_tool\<close>: the guard on pandas, then the body under
  \<^verbatim>\<open>except Exception as e\<close>, which turns a raised exception into a returned text.
\<close>

definition handle_call_tool :: "env \<Rightarrow> string \<Rightarrow> arguments \<Rightarrow> server \<Rightarrow> response \<times> server" where
  "handle_call_tool e name arguments s =
     (if \<not> pandas_available e then (PandasRequired, s)
      else case tool_body e name arguments s of
             (Inl x, s') \<Rightarrow> (ErrorCaught x, s')
           | (Inr r, s') \<Rightarrow> (r, s'))"


section \<open>An example table and environment\<close>

text \<open>
  The four employees of the test suite, and an environment in which one CSV file exists.
  Its comparison of a column with a JSON value covers a number against a number (a null
  cell being NaN) and the equality tests; ordering text is not used by the examples.
\<close>

definition employees :: dataframe where
  "employees =
     \<lparr>columns = [(''name'', Object), (''age'', Numeric), (''salary'', Numeric), (''department'', Object)],
      rows = [[Str ''Alice'', Num 25, Num 50000, Str ''IT''],
              [Str ''Bob'', Num 30, Num 60000, Str ''HR''],
              [Str ''Charlie'', Num 35, Num 70000, Str ''IT''],
              [Str ''Diana'', Num 28, Num 55000, Str ''Finance'']]\<rparr>"

fun cmp_cell :: "string \<Rightarrow> cell \<Rightarrow> json \<Rightarrow> exn + bool" where
  "cmp_cell opr (Num a) (JNum b) =
     Inr (if opr = ''=='' then a = b else if opr = ''!='' then a \<noteq> b
          else if opr = ''>'' then b < a else if opr = ''<'' then a < b
          else if opr = ''>='' then b \<le> a else a \<le> b)"
| "cmp_cell opr Null (JNum b) = Inr (opr = ''!='')"
| "cmp_cell opr (Str a) (JStr b) =
     (if opr = ''=='' then Inr (a = b) else if opr = ''!='' then Inr (a \<noteq> b)
      else Inl (TypeError ''text ordering is outside the example environment''))"
| "cmp_cell opr c v =
     (if opr = ''=='' then Inr False else if opr = ''!='' then Inr True
      else Inl (TypeError ''not supported between these instances''))"

fun cmp_cells :: "string \<Rightarrow> cell list \<Rightarrow> json \<Rightarrow> exn + bool list" where
  "cmp_cells opr [] v = Inr []"
| "cmp_cells opr (c # cs) v =
     (case cmp_cell opr c v of Inl x \<Rightarrow> Inl x
      | Inr b \<Rightarrow> (case cmp_cells opr cs v of Inl x \<Rightarrow> Inl x | Inr bs \<Rightarrow> Inr (b # bs)))"

definition example_matrix :: "nat \<Rightarrow> nat \<Rightarrow> rat option" where
  "example_matrix i j = (if i = j then Some 1 else Some (97 / 100))"

definition example_env :: env where
  "example_env =
     \<lparr>pandas_available = True,
      now = ''2024-01-01T00:00:00'',
      path_exists = (\<lambda>p. p = ''data/employees.csv''),
      read_csv = (\<lambda>p d. Inr employees),
      read_json = (\<lambda>p. Inl (LibraryError ''Expected object or value'')),
      corr = (\<lambda>df m. Inr example_matrix),
      groupby_agg = (\<lambda>df g cs ops. Inr ''table''),
      series_cmp = cmp_cells,
      to_numeric_ok = (\<lambda>cs. False),
      mkdir_parents = (\<lambda>p. None),
      write_export = (\<lambda>f p df. None)\<rparr>"

definition no_arguments :: arguments where
  "no_arguments =
     \<lparr>arg_path = None, arg_name = None, arg_delimiter = None, arg_columns = None,
      arg_include_percentiles = None, arg_method = None, arg_threshold = None,
      arg_group_by = None, arg_agg_columns = None, arg_operations = None, arg_focus = None,
      arg_format = None, arg_output_path = None, arg_conditions = None, arg_new_name = None\<rparr>"

definition example_server :: server where
  "example_server = \<lparr>datasets = [''emp'' \<mapsto> employees], analysis_history = []\<rparr>"

definition age_over_28 :: "string \<rightharpoonup> json" where
  "age_over_28 = [''column'' \<mapsto> JStr ''age'', ''operator'' \<mapsto> JStr ''>'', ''value'' \<mapsto> JNum 28]"


definition bonus_positive :: "string \<rightharpoonup> json" where
  "bonus_positive = [''column'' \<mapsto> JStr ''bonus'', ''operator'' \<mapsto> JStr ''>'', ''value'' \<mapsto> JNum 0]"

definition filter_arguments :: "string \<Rightarrow> (string \<rightharpoonup> json) list \<Rightarrow> string \<Rightarrow> arguments" where
  "filter_arguments n cs n' =
     no_arguments\<lparr>arg_name := Some n, arg_conditions := Some cs, arg_new_name := Some n'\<rparr>"


definition name_over_5 :: "string \<rightharpoonup> json" where
  "name_over_5 = [''column'' \<mapsto> JStr ''name'', ''operator'' \<mapsto> JStr ''>'', ''value'' \<mapsto> JNum 5]"

definition load_arguments :: "string \<Rightarrow> string \<Rightarrow> arguments" where
  "load_arguments p n = no_arguments\<lparr>arg_path := Some p, arg_name := Some n\<rparr>"

text \<open>A table with null cells, a repeated row and one extreme score.\<close>

definition survey :: dataframe where
  "survey =
     \<lparr>columns = [(''id'', Numeric), (''score'', Numeric), (''city'', Object)],
      rows = [[Num 1, Num 10, Str ''A''],
              [Num 2, Num 12, Str ''B''],
              [Num 3, Num 11, Str ''A''],
              [Num 4, Num 13, Str ''B''],
              [Num 5, Num 100, Str ''A''],
              [Num 6, Null, Null],
              [Num 1, Num 10, Str ''A'']]\<rparr>"

definition survey_server :: server where
  "survey_server = \<lparr>datasets = [''survey'' \<mapsto> survey], analysis_history = []\<rparr>"

definition name_arguments :: "string \<Rightarrow> arguments" where
  "name_arguments n = no_arguments\<lparr>arg_name := Some n\<rparr>"

definition insights_arguments :: "string \<Rightarrow> string \<Rightarrow> arguments" where
  "insights_arguments n f = no_arguments\<lparr>arg_name := Some n, arg_focus := Some f\<rparr>"

text \<open>
  Three numeric columns whose Pearson coefficients are \<open>17 / sqrt 308\<close> for \<open>(a, b)\<close>,
  \<open>13 / sqrt 180\<close> for \<open>(a, c)\<close> and \<open>sqrt (55 / 63)\<close> for \<open>(b, c)\<close>, and an environment
  whose correlation matrix holds these values to seven decimals.
\<close>

definition metrics :: dataframe where
  "metrics =
     \<lparr>columns = [(''a'', Numeric), (''b'', Numeric), (''c'', Numeric)],
      rows = [[Num 1, Num 1, Num 1], [Num 2, Num 1, Num 3], [Num 3, Num 4, Num 4],
              [Num 4, Num 6, Num 6], [Num 5, Num 7, Num 6]]\<rparr>"

definition metrics_server :: server where
  "metrics_server = \<lparr>datasets = [''metrics'' \<mapsto> metrics], analysis_history = []\<rparr>"

definition tie_matrix :: "nat \<Rightarrow> nat \<Rightarrow> rat option" where
  "tie_matrix i j =
     (if i = j then Some 1
      else if i + j = 1 then Some (9686649 / 10000000)
      else if i + j = 2 then Some (9689628 / 10000000)
      else Some (9343532 / 10000000))"

definition tie_env :: env where
  "tie_env = example_env\<lparr>corr := (\<lambda>df m. Inr tie_matrix)\<rparr>"

text \<open>A table without any numeric column.\<close>

definition statistics_arguments :: "string \<Rightarrow> string list \<Rightarrow> arguments" where
  "statistics_arguments n cs = no_arguments\<lparr>arg_name := Some n, arg_columns := Some cs\<rparr>"

definition cities :: dataframe where
  "cities = \<lparr>columns = [(''city'', Object)], rows = [[Str ''Oslo''], [Str ''Lima'']]\<rparr>"

definition cities_server :: server where
  "cities_server = \<lparr>datasets = [''cities'' \<mapsto> cities], analysis_history = []\<rparr>"

section \<open>Properties of \<^verbatim>\<open>filter_data\<close>\<close>














section \<open>Properties of the dispatcher\<close>

lemma load_dataset_cases:
  "load_dataset e a s = (r, s') \<Longrightarrow>
     (s' = s \<and> (case r of Inl x \<Rightarrow> True | Inr resp \<Rightarrow> is_error resp))
   \<or> (\<exists>n df. r = Inr (Loaded n (shape df) (names df))
        \<and> s' = s\<lparr>datasets := (datasets s)(n \<mapsto> df),
                 analysis_history := analysis_history s @ [LoadRecord n (now e) (shape df) (names df)]\<rparr>)"
  by (auto simp: load_dataset_def is_error_def Let_def split: option.splits sum.splits if_splits)

lemma generate_insights_cases:
  "generate_insights e a s = (r, s') \<Longrightarrow>
     (s' = s \<and> (case r of Inl x \<Rightarrow> True | Inr resp \<Rightarrow> is_error resp))
   \<or> (\<exists>n f ins. r = Inr (DataInsights n ins)
        \<and> s' = s\<lparr>analysis_history := analysis_history s @ [InsightsRecord n f (now e)]\<rparr>)"
  by (auto simp: generate_insights_def is_error_def Let_def split: option.splits sum.splits if_splits)

lemma filter_data_cases:
  "filter_data e a s = (r, s') \<Longrightarrow>
     (s' = s \<and> (case r of Inl x \<Rightarrow> True | Inr resp \<Rightarrow> is_error resp))
   \<or> (\<exists>n n' df0 df k. r = Inr (Filtered n n' (shape df0) (shape df) k)
        \<and> s' = s\<lparr>datasets := (datasets s)(n' \<mapsto> df)\<rparr>)"
  by (auto simp: filter_data_def is_error_def Let_def split: option.splits sum.splits if_splits)

lemma dataset_info_state: "snd (dataset_info e a s) = s"
  by (simp add: dataset_info_def split: option.splits)

lemma calculate_statistics_state: "snd (calculate_statistics e a s) = s"
  by (simp add: calculate_statistics_def Let_def split: option.splits sum.splits list.splits)

lemma find_correlations_state: "snd (find_correlations e a s) = s"
  by (simp add: find_correlations_def Let_def split: option.splits sum.splits)

lemma group_analysis_state: "snd (group_analysis e a s) = s"
  by (simp add: group_analysis_def Let_def split: option.splits sum.splits list.splits)

lemma data_quality_check_state: "snd (data_quality_check e a s) = s"
  by (simp add: data_quality_check_def split: option.splits)

lemma export_analysis_state: "snd (export_analysis e a s) = s"
  by (simp add: export_analysis_def Let_def split: option.splits sum.splits)


lemma tool_body_readonly:
  assumes "name \<noteq> ''load_dataset''" and "name \<noteq> ''generate_insights''"
    and "name \<noteq> ''filter_data''"
  shows "snd (tool_body e name a s) = s"
  using assms
  by (simp add: tool_body_def dataset_info_state calculate_statistics_state
      find_correlations_state group_analysis_state data_quality_check_state
      export_analysis_state)

lemma tool_body_failure:
  assumes "tool_body e name a s = (r, s')"
    and "case r of Inl x \<Rightarrow> True | Inr resp \<Rightarrow> is_error resp"
  shows "s' = s"
proof -
  consider (load) "name = ''load_dataset''" | (ins) "name = ''generate_insights''"
    | (filt) "name = ''filter_data''"
    | (other) "name \<noteq> ''load_dataset''" "name \<noteq> ''generate_insights''" "name \<noteq> ''filter_data''"
    by blast
  then show ?thesis
  proof cases
    case load
    with assms(1) have "load_dataset e a s = (r, s')" by (simp add: tool_body_def)
    from load_dataset_cases [OF this] assms(2) show ?thesis
      by (auto simp: is_error_def)
  next
    case ins
    with assms(1) have "generate_insights e a s = (r, s')" by (simp add: tool_body_def)
    from generate_insights_cases [OF this] assms(2) show ?thesis
      by (auto simp: is_error_def)
  next
    case filt
    with assms(1) have "filter_data e a s = (r, s')" by (simp add: tool_body_def)
    from filter_data_cases [OF this] assms(2) show ?thesis
      by (auto simp: is_error_def)
  next
    case other
    then have "snd (tool_body e name a s) = s" by (rule tool_body_readonly)
    with assms(1) show ?thesis by simp
  qed
qed

lemma tool_body_success_history:
  assumes "tool_body e name a s = (Inr resp, s')" and "\<not> is_error resp"
  shows "if name = ''load_dataset'' \<or> name = ''generate_insights''
         then \<exists>entry. analysis_history s' = analysis_history s @ [entry]
         else analysis_history s' = analysis_history s"
proof -
  consider (load) "name = ''load_dataset''" | (ins) "name = ''generate_insights''"
    | (filt) "name = ''filter_data''"
    | (other) "name \<noteq> ''load_dataset''" "name \<noteq> ''generate_insights''" "name \<noteq> ''filter_data''"
    by blast
  then show ?thesis
  proof cases
    case load
    with assms(1) have "load_dataset e a s = (Inr resp, s')" by (simp add: tool_body_def)
    from load_dataset_cases [OF this] assms(2) load show ?thesis by auto
  next
    case ins
    with assms(1) have "generate_insights e a s = (Inr resp, s')" by (simp add: tool_body_def)
    from generate_insights_cases [OF this] assms(2) ins show ?thesis by auto
  next
    case filt
    with assms(1) have "filter_data e a s = (Inr resp, s')" by (simp add: tool_body_def)
    from filter_data_cases [OF this] assms(2) filt show ?thesis by auto
  next
    case other
    then have "snd (tool_body e name a s) = s" by (rule tool_body_readonly)
    with assms(1) other show ?thesis by simp
  qed
qed

lemma handle_call_tool_cases:
  "handle_call_tool e name a s = (resp, s') \<Longrightarrow>
     (\<not> pandas_available e \<and> resp = PandasRequired \<and> s' = s)
   \<or> (pandas_available e \<and> (\<exists>x. tool_body e name a s = (Inl x, s') \<and> resp = ErrorCaught x))
   \<or> (pandas_available e \<and> tool_body e name a s = (Inr resp, s'))"
  by (auto simp: handle_call_tool_def split: if_splits prod.splits sum.splits)

text \<open>
  C10. A tool call whose result is one of the error texts (pandas missing, unknown tool,
  dataset, file or column not found, unsupported format, or an exception caught by the
  \<^verbatim>\<open>except\<close> clause) leaves \<^verbatim>\<open>self.datasets\<close> as it was.
\<close>

theorem error_result_keeps_registry:
  assumes "is_error (fst (handle_call_tool e name arguments s))"
  shows "datasets (snd (handle_call_tool e name arguments s)) = datasets s"
proof -
  obtain resp s' where h: "handle_call_tool e name arguments s = (resp, s')"
    by (cases "handle_call_tool e name arguments s")
  with assms have err: "is_error resp" by simp
  from handle_call_tool_cases [OF h] have "s' = s"
  proof (elim disjE conjE exE)
    assume "s' = s" then show ?thesis .
  next
    fix x assume "tool_body e name arguments s = (Inl x, s')"
    then show ?thesis by (rule tool_body_failure) simp
  next
    assume "tool_body e name arguments s = (Inr resp, s')"
    then show ?thesis by (rule tool_body_failure) (simp add: err)
  qed
  with h show ?thesis by simp
qed

text \<open>
  C1, as the code has it. A call that returns an error text leaves
  \<^verbatim>\<open>self.analysis_history\<close> unchanged. A successful \<^verbatim>\<open>load_dataset\<close> or
  \<^verbatim>\<open>generate_insights\<close> appends exactly one record. Every other successful call,
  \<^verbatim>\<open>filter_data\<close> among them, leaves the log unchanged.
\<close>

theorem history_log_growth:
  "(is_error (fst (handle_call_tool e name arguments s)) \<longrightarrow>
      analysis_history (snd (handle_call_tool e name arguments s)) = analysis_history s)
   \<and> (\<not> is_error (fst (handle_call_tool e name arguments s)) \<longrightarrow>
      (if name = ''load_dataset'' \<or> name = ''generate_insights''
       then \<exists>entry. analysis_history (snd (handle_call_tool e name arguments s))
                      = analysis_history s @ [entry]
       else analysis_history (snd (handle_call_tool e name arguments s)) = analysis_history s))"
proof -
  obtain resp s' where h: "handle_call_tool e name arguments s = (resp, s')"
    by (cases "handle_call_tool e name arguments s")
  show ?thesis
  proof (cases "is_error resp")
    case True
    from handle_call_tool_cases [OF h] have "s' = s"
    proof (elim disjE conjE exE)
      assume "s' = s" then show ?thesis .
    next
      fix x assume "tool_body e name arguments s = (Inl x, s')"
      then show ?thesis by (rule tool_body_failure) simp
    next
      assume "tool_body e name arguments s = (Inr resp, s')"
      then show ?thesis by (rule tool_body_failure) (simp add: True)
    qed
    with h True show ?thesis by simp
  next
    case False
    with handle_call_tool_cases [OF h] have "tool_body e name arguments s = (Inr resp, s')"
      by (auto simp: is_error_def)
    from tool_body_success_history [OF this False] h False show ?thesis by simp
  qed
qed



lemmas example_defs = example_env_def example_server_def employees_def no_arguments_def
  filter_arguments_def load_arguments_def age_over_28_def name_over_5_def bonus_positive_def

lemmas frame_defs = names_def shape_def series_def series_at_def cell_at_def boolean_index_def
  take_cols_def numeric_idx_def select_dtypes_number_def

lemma filter_senior:
  "handle_call_tool example_env ''filter_data'' (filter_arguments ''emp'' [age_over_28] n') example_server
   = (Filtered ''emp'' n' (4, 4) (2, 4) 1,
      example_server\<lparr>datasets := (datasets example_server)(n' \<mapsto>
        employees\<lparr>rows := [[Str ''Bob'', Num 30, Num 60000, Str ''HR''],
                           [Str ''Charlie'', Num 35, Num 70000, Str ''IT'']]\<rparr>)\<rparr>)"
  by (simp add: handle_call_tool_def tool_body_def filter_data_def apply_condition_def
      filter_operators_def example_defs frame_defs)


lemma load_employees:
  "handle_call_tool example_env ''load_dataset'' (load_arguments ''data/employees.csv'' ''staff'') example_server
   = (Loaded ''staff'' (4, 4) [''name'', ''age'', ''salary'', ''department''],
      example_server\<lparr>datasets := (datasets example_server)(''staff'' \<mapsto> employees),
        analysis_history := [LoadRecord ''staff'' ''2024-01-01T00:00:00'' (4, 4)
           [''name'', ''age'', ''salary'', ''department'']]\<rparr>)"
  by (simp add: handle_call_tool_def tool_body_def load_dataset_def endswith_def
      example_defs frame_defs)

lemma load_missing_file:
  "handle_call_tool example_env ''load_dataset'' (load_arguments ''data/none.csv'' ''staff'') example_server
   = (FileNotFound ''data/none.csv'', example_server)"
  by (simp add: handle_call_tool_def tool_body_def load_dataset_def example_defs)

text \<open>
  Loading the example file is a successful call: the log gains one record. Loading a file
  that does not exist is a failed call: the log stays as it is.
\<close>

theorem history_log_growth_witness:
  "\<not> is_error (fst (handle_call_tool example_env ''load_dataset''
        (load_arguments ''data/employees.csv'' ''staff'') example_server))
   \<and> (\<exists>entry. analysis_history (snd (handle_call_tool example_env ''load_dataset''
        (load_arguments ''data/employees.csv'' ''staff'') example_server))
      = analysis_history example_server @ [entry])
   \<and> is_error (fst (handle_call_tool example_env ''load_dataset''
        (load_arguments ''data/none.csv'' ''staff'') example_server))
   \<and> analysis_history (snd (handle_call_tool example_env ''load_dataset''
        (load_arguments ''data/none.csv'' ''staff'') example_server))
     = analysis_history example_server"
  using history_log_growth [where e = example_env and name = "''load_dataset''"
      and arguments = "load_arguments ''data/employees.csv'' ''staff''" and s = example_server]
    history_log_growth [where e = example_env and name = "''load_dataset''"
      and arguments = "load_arguments ''data/none.csv'' ''staff''" and s = example_server]
  by (simp add: load_employees load_missing_file is_error_def)

text \<open>
  C1 as stated fails for \<^verbatim>\<open>filter_data\<close>: filtering the employees by \<open>age > 28\<close>
  succeeds, and the log is as long as before.
\<close>

theorem filter_data_no_history_counterexample:
  "\<not> is_error (fst (handle_call_tool example_env ''filter_data''
        (filter_arguments ''emp'' [age_over_28] ''senior'') example_server))
   \<and> length (analysis_history (snd (handle_call_tool example_env ''filter_data''
        (filter_arguments ''emp'' [age_over_28] ''senior'') example_server)))
     \<noteq> length (analysis_history example_server) + 1"
  by (simp add: filter_senior is_error_def)


theorem error_result_keeps_registry_witness:
  "is_error (fst (handle_call_tool example_env ''filter_data''
       (filter_arguments ''emp'' [name_over_5] ''emp'') example_server))
   \<and> datasets (snd (handle_call_tool example_env ''filter_data''
       (filter_arguments ''emp'' [name_over_5] ''emp'') example_server)) = datasets example_server"
proof -
  have "tool_body example_env ''filter_data'' (filter_arguments ''emp'' [name_over_5] ''emp'') example_server
     = (Inl (TypeError ''not supported between these instances''), example_server)"
    by (simp add: tool_body_def filter_data_def apply_condition_def
        filter_operators_def example_defs frame_defs)
  then have a: "is_error (fst (handle_call_tool example_env ''filter_data''
       (filter_arguments ''emp'' [name_over_5] ''emp'') example_server))"
    by (simp add: handle_call_tool_def is_error_def example_env_def)
  from error_result_keeps_registry [OF a] a show ?thesis by simp
qed






section \<open>Properties of \<^verbatim>\<open>data_quality_check\<close>\<close>

lemma index_of_nth:
  "distinct xs \<Longrightarrow> j < length xs \<Longrightarrow> index_of (xs ! j) xs = Some j"
proof (induction xs arbitrary: j)
  case Nil
  then show ?case by simp
next
  case (Cons x xs)
  show ?case
  proof (cases j)
    case 0
    then show ?thesis by simp
  next
    case (Suc k)
    with Cons.prems have "k < length xs" "xs ! k \<noteq> x" "distinct xs"
      by auto
    with Cons.IH Suc show ?thesis by auto
  qed
qed

lemma length_names [simp]: "length (names df) = length (columns df)"
  by (simp add: names_def)

lemma series_nth_name:
  "distinct (names df) \<Longrightarrow> j < length (columns df) \<Longrightarrow>
   series df (names df ! j) = series_at df j"
  by (simp add: series_def index_of_nth)

lemma map_series_names:
  assumes "distinct (names df)"
  shows "map (\<lambda>c. f (series df c)) (names df)
       = map (\<lambda>j. f (series_at df j)) [0..<length (columns df)]"
  using assms by (intro nth_equalityI) (simp_all add: series_nth_name)

lemma isnull_column_count:
  assumes "j < length (columns df)"
  shows "length (filter (\<lambda>r. r ! j) (isnull df)) = isnull_sum (series_at df j)"
proof -
  have "filter (\<lambda>r. r ! j) (isnull df)
      = map (\<lambda>r. map (\<lambda>j. cell_at r j = Null) [0..<length (columns df)])
          (filter (\<lambda>r. cell_at r j = Null) (rows df))"
    using assms unfolding isnull_def filter_map by (simp add: comp_def)
  then have "length (filter (\<lambda>r. r ! j) (isnull df))
      = length (filter (\<lambda>r. cell_at r j = Null) (rows df))"
    by simp
  also have "\<dots> = isnull_sum (series_at df j)"
    by (simp add: isnull_sum_def series_at_def filter_map comp_def)
  finally show ?thesis .
qed

lemma total_missing_values_columns:
  assumes "distinct (names df)"
  shows "total_missing_values df = (\<Sum>c\<leftarrow>names df. isnull_sum (series df c))"
proof -
  have "frame_sum (length (columns df)) (isnull df)
      = map (\<lambda>j. isnull_sum (series_at df j)) [0..<length (columns df)]"
    by (simp add: frame_sum_def isnull_column_count)
  also have "\<dots> = map (\<lambda>c. isnull_sum (series df c)) (names df)"
    using assms by (simp add: map_series_names)
  finally show ?thesis by (simp add: total_missing_values_def)
qed

lemma length_duplicated_from [simp]: "length (duplicated_from seen rs) = length rs"
  by (induction rs arbitrary: seen) auto

lemma duplicated_from_nth:
  "i < length rs \<Longrightarrow>
   duplicated_from seen rs ! i = (rs ! i \<in> set seen \<or> (\<exists>j<i. rs ! j = rs ! i))"
proof (induction rs arbitrary: seen i)
  case Nil
  then show ?case by simp
next
  case (Cons r rs)
  show ?case
  proof (cases i)
    case 0
    then show ?thesis by simp
  next
    case (Suc k)
    with Cons.prems have k: "k < length rs" by simp
    have "(\<exists>j<Suc k. (r # rs) ! j = rs ! k) = (r = rs ! k \<or> (\<exists>j<k. rs ! j = rs ! k))"
      by (auto simp: less_Suc_eq_0_disj)
    with Cons.IH [OF k, of "r # seen"] Suc show ?thesis by auto
  qed
qed

lemma count_duplicated_from:
  "length (filter id (duplicated_from [] rs))
   = card {i. i < length rs \<and> (\<exists>j<i. rs ! j = rs ! i)}"
proof -
  have "length (filter id (duplicated_from [] rs))
      = card {i. i < length (duplicated_from [] rs) \<and> id (duplicated_from [] rs ! i)}"
    by (rule length_filter_conv_card)
  also have "{i. i < length (duplicated_from [] rs) \<and> id (duplicated_from [] rs ! i)}
      = {i. i < length rs \<and> (\<exists>j<i. rs ! j = rs ! i)}"
    by (auto simp: duplicated_from_nth)
  finally show ?thesis .
qed

lemma well_formed_rows:
  assumes "well_formed df"
  shows "map (\<lambda>r. map (cell_at r) [0..<length (columns df)]) (rows df) = rows df"
proof -
  have "map (cell_at r) [0..<length (columns df)] = r" if "r \<in> set (rows df)" for r
  proof -
    from that assms have len: "length r = length (columns df)"
      by (simp add: well_formed_def list_all_iff)
    show ?thesis by (rule nth_equalityI) (simp_all add: cell_at_def len)
  qed
  then show ?thesis by (simp add: map_idI)
qed

lemma duplicate_rows_card:
  assumes "well_formed df"
  shows "duplicate_rows df
       = card {i. i < length (rows df) \<and> (\<exists>j<i. rows df ! j = rows df ! i)}"
  using assms
  by (simp add: duplicate_rows_def duplicated_def well_formed_rows count_duplicated_from)

text \<open>
  C8. In the report of \<^verbatim>\<open>data_quality_check\<close>, \<^verbatim>\<open>total_missing_values\<close> is the sum,
  over the columns, of the column's null count (\<^verbatim>\<open>df[col].isnull().sum()\<close>), and
  \<^verbatim>\<open>duplicate_rows\<close> is the number of rows equal, in every column, to some earlier row.
\<close>

theorem data_quality_counts:
  assumes "pandas_available e" and "arg_name arguments = Some n"
    and "datasets s n = Some df" and "well_formed df"
  shows "\<exists>q. fst (handle_call_tool e ''data_quality_check'' arguments s) = DataQualityReport n q
           \<and> q_total_missing_values q = (\<Sum>c\<leftarrow>names df. isnull_sum (series df c))
           \<and> q_duplicate_rows q
               = card {i. i < length (rows df) \<and> (\<exists>j<i. rows df ! j = rows df ! i)}"
proof -
  from assms(4) have d: "distinct (names df)" by (simp add: well_formed_def)
  have "fst (handle_call_tool e ''data_quality_check'' arguments s)
      = DataQualityReport n (make_quality_report df)"
    using assms(1-3)
    by (simp add: handle_call_tool_def tool_body_def data_quality_check_def)
  moreover have "q_total_missing_values (make_quality_report df)
      = (\<Sum>c\<leftarrow>names df. isnull_sum (series df c))"
    using d by (simp add: make_quality_report_def total_missing_values_columns)
  moreover have "q_duplicate_rows (make_quality_report df)
      = card {i. i < length (rows df) \<and> (\<exists>j<i. rows df ! j = rows df ! i)}"
    using assms(4) by (simp add: make_quality_report_def duplicate_rows_card)
  ultimately show ?thesis by blast
qed


lemma survey_well_formed: "well_formed survey"
  by code_simp

lemma survey_quality:
  "fst (handle_call_tool example_env ''data_quality_check'' (name_arguments ''survey'') survey_server)
     = DataQualityReport ''survey'' (make_quality_report survey)"
  "q_total_missing_values (make_quality_report survey) = 2"
  "q_duplicate_rows (make_quality_report survey) = 1"
  by code_simp+

theorem data_quality_counts_witness:
  "pandas_available example_env
   \<and> arg_name (name_arguments ''survey'') = Some ''survey''
   \<and> datasets survey_server ''survey'' = Some survey
   \<and> well_formed survey
   \<and> (\<Sum>c\<leftarrow>names survey. isnull_sum (series survey c)) = 2
   \<and> card {i. i < length (rows survey) \<and> (\<exists>j<i. rows survey ! j = rows survey ! i)} = 1"
proof -
  have a: "pandas_available example_env" by (simp add: example_env_def)
  have b: "arg_name (name_arguments ''survey'') = Some ''survey''"
    by (simp add: name_arguments_def no_arguments_def)
  have c: "datasets survey_server ''survey'' = Some survey"
    by (simp add: survey_server_def)
  from data_quality_counts [OF a b c survey_well_formed] survey_quality a b c survey_well_formed
  show ?thesis by simp
qed


section \<open>Properties of the outlier insights\<close>


lemma index_of_mem: "x \<in> set xs \<Longrightarrow> \<exists>k. index_of x xs = Some k"
  by (induction xs) auto








lemma length_series:
  "c \<in> set (names df) \<Longrightarrow> length (series df c) = length (rows df)"
  using index_of_mem [of c "names df"] by (auto simp: series_def series_at_def)












section \<open>Properties of \<^verbatim>\<open>find_correlations\<close>\<close>

lemma set_index_pairs: "set (index_pairs n) = {(i, j). i < j \<and> j < n}"
proof (intro set_eqI iffI)
  fix p assume "p \<in> set (index_pairs n)"
  then show "p \<in> {(i, j). i < j \<and> j < n}"
    by (auto simp: index_pairs_def)
next
  fix p assume "p \<in> {(i, j). i < j \<and> j < n}"
  then obtain i j where p: "p = (i, j)" and ij: "i < j" "j < n"
    by auto
  then have "i \<in> set [0..<n]" and "(i, j) \<in> set (map (\<lambda>j. (i, j)) [Suc i..<n])"
    by auto
  then show "p \<in> set (index_pairs n)"
    unfolding index_pairs_def p set_concat by (intro UN_I [of "map (\<lambda>j. (i, j)) [Suc i..<n]"]) auto
qed

lemma distinct_concat_pairs:
  "distinct xs \<Longrightarrow> (\<And>x. x \<in> set xs \<Longrightarrow> distinct (f x)) \<Longrightarrow>
   distinct (concat (map (\<lambda>i. map (Pair i) (f i)) xs))"
  by (induction xs) (auto simp: distinct_map inj_on_def)

lemma distinct_index_pairs: "distinct (index_pairs n)"
  unfolding index_pairs_def by (rule distinct_concat_pairs) simp_all

lemma concat_selected:
  "concat (map (\<lambda>(i, j). case f i j of
                   Some v \<Rightarrow> if t \<le> \<bar>v\<bar> then [g i j v] else []
                 | None \<Rightarrow> []) ps)
   = map (\<lambda>(i, j). g i j (the (f i j)))
       (filter (\<lambda>(i, j). \<exists>v. f i j = Some v \<and> t \<le> \<bar>v\<bar>) ps)"
  by (induction ps) (auto split: option.splits)

lemma high_corr_eq:
  "high_corr m t
   = map (\<lambda>(i, j). mk_entry m i j (the (iloc m i j)))
       (filter (\<lambda>(i, j). \<exists>v. iloc m i j = Some v \<and> t \<le> \<bar>v\<bar>)
          (index_pairs (length (corr_columns m))))"
  unfolding high_corr_def by (rule concat_selected)

lemma set_high_corr:
  "x \<in> set (high_corr m t) \<longleftrightarrow>
   (\<exists>i j v. i < j \<and> j < length (corr_columns m) \<and> iloc m i j = Some v \<and> t \<le> \<bar>v\<bar>
      \<and> x = mk_entry m i j v)"
  by (force simp: high_corr_eq set_index_pairs)

lemma length_high_corr:
  "length (high_corr m t)
   = card {(i, j). i < j \<and> j < length (corr_columns m)
             \<and> (\<exists>v. iloc m i j = Some v \<and> t \<le> \<bar>v\<bar>)}"
proof -
  let ?P = "\<lambda>(i, j). \<exists>v. iloc m i j = Some v \<and> t \<le> \<bar>v\<bar>"
  let ?ps = "index_pairs (length (corr_columns m))"
  have "length (high_corr m t) = length (filter ?P ?ps)"
    by (simp add: high_corr_eq)
  also have "\<dots> = card (set (filter ?P ?ps))"
  proof -
    have "distinct (filter ?P ?ps)"
      by (rule distinct_filter) (rule distinct_index_pairs)
    then show ?thesis by (rule distinct_card [symmetric])
  qed
  also have "set (filter ?P ?ps)
      = {(i, j). i < j \<and> j < length (corr_columns m)
             \<and> (\<exists>v. iloc m i j = Some v \<and> t \<le> \<bar>v\<bar>)}"
    by (auto simp: set_index_pairs)
  finally show ?thesis .
qed

lemma sorted_high_corr_descending:
  "sorted_wrt (\<lambda>x y. \<bar>correlation y\<bar> \<le> \<bar>correlation x\<bar>) (sorted_high_corr hc)"
proof -
  have "sorted (map (\<lambda>x. - \<bar>correlation x\<bar>) (sorted_high_corr hc))"
    unfolding sorted_high_corr_def by (rule sorted_sort_key)
  then show ?thesis by (simp add: sorted_map)
qed

lemma to_table_nth:
  "i < length (corr_columns m) \<Longrightarrow> j < length (corr_columns m) \<Longrightarrow>
   to_table (round_frame m) ! i ! j = map_option (py_round 3) (iloc m i j)"
  by (simp add: to_table_def round_frame_def Let_def)

text \<open>
  C6, as the code has it. On a loaded dataset for which pandas returns a correlation matrix,
  the reported pair list contains exactly one entry for each pair of numeric columns
  \<open>(i, j)\<close>, \<open>i < j\<close>, whose correlation is not NaN and at least the threshold in absolute
  value; the entry carries the two labels, the correlation rounded to three decimals, and
  \<open>Strong\<close> when the absolute correlation is at least 0.7, \<open>Moderate\<close> otherwise. The list is
  sorted by descending absolute value of the rounded correlation it reports. The full matrix,
  rounded to three decimals, is part of the result.
\<close>

theorem find_correlations_report:
  assumes "pandas_available e" and "arg_name arguments = Some n"
    and "datasets s n = Some df"
    and "method = (case arg_method arguments of None \<Rightarrow> ''pearson'' | Some m \<Rightarrow> m)"
    and "threshold = (case arg_threshold arguments of None \<Rightarrow> 1 / 2 | Some t \<Rightarrow> t)"
    and "corr e (select_dtypes_number df) method = Inr entries"
    and "cols = names (select_dtypes_number df)"
  shows "\<exists>hc tbl. fst (handle_call_tool e ''find_correlations'' arguments s)
                  = CorrelationAnalysis method threshold hc cols tbl
           \<and> (\<forall>x. x \<in> set hc \<longleftrightarrow>
                 (\<exists>i j v. i < j \<and> j < length cols \<and> entries i j = Some v \<and> threshold \<le> \<bar>v\<bar>
                    \<and> x = \<lparr>column1 = cols ! i, column2 = cols ! j,
                            correlation = py_round 3 v,
                            strength = (if 7 / 10 \<le> \<bar>v\<bar> then ''Strong'' else ''Moderate'')\<rparr>))
           \<and> length hc = card {(i, j). i < j \<and> j < length cols
                                   \<and> (\<exists>v. entries i j = Some v \<and> threshold \<le> \<bar>v\<bar>)}
           \<and> sorted_wrt (\<lambda>x y. \<bar>correlation y\<bar> \<le> \<bar>correlation x\<bar>) hc
           \<and> length tbl = length cols
           \<and> (\<forall>i<length cols. \<forall>j<length cols.
                 tbl ! i ! j = map_option (py_round 3) (entries i j))"
proof -
  define m where "m = \<lparr>corr_columns = cols, iloc = entries\<rparr>"
  define hc where "hc = sorted_high_corr (high_corr m threshold)"
  define tbl where "tbl = to_table (round_frame m)"
  have mc: "corr_columns m = cols" and mi: "iloc m = entries"
    by (simp_all add: m_def)
  have resp: "fst (handle_call_tool e ''find_correlations'' arguments s)
      = CorrelationAnalysis method threshold hc cols tbl"
    using assms
    by (simp add: handle_call_tool_def tool_body_def find_correlations_def Let_def
        hc_def tbl_def m_def)
  have mem: "x \<in> set hc \<longleftrightarrow>
      (\<exists>i j v. i < j \<and> j < length cols \<and> entries i j = Some v \<and> threshold \<le> \<bar>v\<bar>
         \<and> x = \<lparr>column1 = cols ! i, column2 = cols ! j,
                 correlation = py_round 3 v,
                 strength = (if 7 / 10 \<le> \<bar>v\<bar> then ''Strong'' else ''Moderate'')\<rparr>)" for x
    unfolding hc_def sorted_high_corr_def
    by (simp add: set_high_corr mc mi mk_entry_def)
  have len: "length hc = card {(i, j). i < j \<and> j < length cols
                                   \<and> (\<exists>v. entries i j = Some v \<and> threshold \<le> \<bar>v\<bar>)}"
    unfolding hc_def sorted_high_corr_def
    by (simp add: length_high_corr mc mi)
  have srt: "sorted_wrt (\<lambda>x y. \<bar>correlation y\<bar> \<le> \<bar>correlation x\<bar>) hc"
    unfolding hc_def by (rule sorted_high_corr_descending)
  have tl: "length tbl = length cols"
    by (simp add: tbl_def to_table_def round_frame_def Let_def mc)
  have te: "\<forall>i<length cols. \<forall>j<length cols.
      tbl ! i ! j = map_option (py_round 3) (entries i j)"
    using to_table_nth [of _ m] by (simp add: tbl_def mc mi)
  from resp mem len srt tl te show ?thesis by blast
qed


theorem find_correlations_report_witness:
  "pandas_available example_env
   \<and> arg_name (name_arguments ''emp'') = Some ''emp''
   \<and> datasets example_server ''emp'' = Some employees
   \<and> corr example_env (select_dtypes_number employees) ''pearson'' = Inr example_matrix
   \<and> (\<exists>hc tbl. fst (handle_call_tool example_env ''find_correlations''
                      (name_arguments ''emp'') example_server)
                  = CorrelationAnalysis ''pearson'' (1 / 2) hc [''age'', ''salary''] tbl
          \<and> sorted_wrt (\<lambda>x y. \<bar>correlation y\<bar> \<le> \<bar>correlation x\<bar>) hc
          \<and> length tbl = 2)"
proof -
  have a: "pandas_available example_env" by (simp add: example_env_def)
  have b: "arg_name (name_arguments ''emp'') = Some ''emp''"
    by (simp add: name_arguments_def no_arguments_def)
  have c: "datasets example_server ''emp'' = Some employees"
    by (simp add: example_server_def)
  have m: "''pearson'' = (case arg_method (name_arguments ''emp'') of
                            None \<Rightarrow> ''pearson'' | Some m \<Rightarrow> m)"
    and t: "1 / 2 = (case arg_threshold (name_arguments ''emp'') of
                       None \<Rightarrow> 1 / 2 | Some t \<Rightarrow> t)"
    by (simp_all add: name_arguments_def no_arguments_def)
  have d: "corr example_env (select_dtypes_number employees) ''pearson'' = Inr example_matrix"
    by (simp add: example_env_def)
  have n: "[''age'', ''salary''] = names (select_dtypes_number employees)"
    by code_simp
  from find_correlations_report [OF a b c m t d n] a b c d
  show ?thesis by auto
qed

text \<open>The entries of the matrix lie within \<open>10\<^sup>-\<^sup>7\<close> of the coefficients.\<close>

lemma tie_matrix_digits:
  "(9686648 / 10000000)\<^sup>2 \<le> (289 / 308 :: rat) \<and> (289 / 308 :: rat) \<le> (9686649 / 10000000)\<^sup>2"
  "(9689627 / 10000000)\<^sup>2 \<le> (169 / 180 :: rat) \<and> (169 / 180 :: rat) \<le> (9689628 / 10000000)\<^sup>2"
  "(9343531 / 10000000)\<^sup>2 \<le> (55 / 63 :: rat) \<and> (55 / 63 :: rat) \<le> (9343532 / 10000000)\<^sup>2"
  by (simp_all add: power2_eq_square)

text \<open>
  C6 as stated fails on the order: the sort key is the rounded value. With correlations
  0.9686649 for \<open>(a, b)\<close> and 0.9689628 for \<open>(a, c)\<close> both entries report 0.969 and keep
  the order of the enumeration, the smaller absolute correlation first.
\<close>

theorem find_correlations_rounded_order_counterexample:
  "corr tie_env (select_dtypes_number metrics) ''pearson'' = Inr tie_matrix
   \<and> tie_matrix 0 1 = Some (9686649 / 10000000)
   \<and> tie_matrix 0 2 = Some (9689628 / 10000000)
   \<and> fst (handle_call_tool tie_env ''find_correlations'' (name_arguments ''metrics'') metrics_server)
     = CorrelationAnalysis ''pearson'' (1 / 2)
         [\<lparr>column1 = ''a'', column2 = ''b'', correlation = 969 / 1000, strength = ''Strong''\<rparr>,
          \<lparr>column1 = ''a'', column2 = ''c'', correlation = 969 / 1000, strength = ''Strong''\<rparr>,
          \<lparr>column1 = ''b'', column2 = ''c'', correlation = 934 / 1000, strength = ''Strong''\<rparr>]
         [''a'', ''b'', ''c'']
         [[Some 1, Some (969 / 1000), Some (969 / 1000)],
          [Some (969 / 1000), Some 1, Some (934 / 1000)],
          [Some (969 / 1000), Some (934 / 1000), Some 1]]"
proof -
  have "corr tie_env (select_dtypes_number metrics) ''pearson'' = Inr tie_matrix"
    by (simp add: tie_env_def)
  moreover have "tie_matrix 0 1 = Some (9686649 / 10000000)"
    "tie_matrix 0 2 = Some (9689628 / 10000000)"
    by (simp_all add: tie_matrix_def)
  moreover have "fst (handle_call_tool tie_env ''find_correlations'' (name_arguments ''metrics'') metrics_server)
     = CorrelationAnalysis ''pearson'' (1 / 2)
         [\<lparr>column1 = ''a'', column2 = ''b'', correlation = 969 / 1000, strength = ''Strong''\<rparr>,
          \<lparr>column1 = ''a'', column2 = ''c'', correlation = 969 / 1000, strength = ''Strong''\<rparr>,
          \<lparr>column1 = ''b'', column2 = ''c'', correlation = 934 / 1000, strength = ''Strong''\<rparr>]
         [''a'', ''b'', ''c'']
         [[Some 1, Some (969 / 1000), Some (969 / 1000)],
          [Some (969 / 1000), Some 1, Some (934 / 1000)],
          [Some (969 / 1000), Some (934 / 1000), Some 1]]"
    by code_simp
  ultimately show ?thesis by simp
qed

section \<open>Properties of \<^verbatim>\<open>calculate_statistics\<close>\<close>









lemma statistics_name_age:
  "fst (handle_call_tool example_env ''calculate_statistics''
          (statistics_arguments ''emp'' [''name'', ''age'']) example_server)
   = DescriptiveStatistics ''emp''
       (NumericDescription
         [(''age'', \<lparr>st_count = 4, st_mean = Some (59 / 2), st_min = Some 25,
             st_percentiles = [(1 / 4, Some (109 / 4)), (1 / 2, Some 29), (3 / 4, Some (125 / 4)),
               (9 / 10, Some (67 / 2)), (19 / 20, Some (137 / 4))],
             st_max = Some 35\<rparr>)])"
  by code_simp



text \<open>
  Without a \<^verbatim>\<open>columns\<close> list, a dataset that has no numeric column makes
  \<^verbatim>\<open>describe\<close> raise, and the call returns the caught error.
\<close>

lemma statistics_without_numeric_columns:
  "fst (handle_call_tool example_env ''calculate_statistics'' (name_arguments ''cities'') cities_server)
   = ErrorCaught (ValueError ''Cannot describe a DataFrame without columns'')"
  by code_simp


section \<open>The \<^verbatim>\<open>focus\<close> of \<^verbatim>\<open>generate_insights\<close>\<close>

text \<open>With \<^verbatim>\<open>focus="all"\<close> the four sections follow one another.\<close>

lemma build_insights_all:
  "build_insights e df ''all''
   = (case pattern_insights df of
        Inl x \<Rightarrow> Inl x
      | Inr patterns \<Rightarrow>
          Inr (overview_insights df @ outlier_insights df @ patterns
               @ recommendation_insights e df))"
  by (simp add: build_insights_def)

text \<open>
  C4. The handler runs all four sections for \<^verbatim>\<open>focus="all"\<close>, and the default is
  \<open>overview\<close>; but the \<^verbatim>\<open>enum\<close> declared in the input schema of
  \<^verbatim>\<open>generate_insights\<close> lists only \<open>overview\<close>, \<open>outliers\<close>, \<open>patterns\<close> and
  \<open>recommendations\<close>, so the schema does not accept \<open>all\<close>.
\<close>

theorem focus_all_outside_declared_enum:
  "\<not> schema_accepts_focus ''all''
   \<and> schema_accepts_focus ''overview'' \<and> schema_accepts_focus ''outliers''
   \<and> schema_accepts_focus ''patterns'' \<and> schema_accepts_focus ''recommendations''
   \<and> focus_default = ''overview''
   \<and> fst (handle_call_tool example_env ''generate_insights''
            (insights_arguments ''survey'' ''all'') survey_server)
     = DataInsights ''survey''
         [OverviewHeader, RecordsFeatures 7 3, DataTypes [(Numeric, 2), (Object, 1)],
          NumericColumns 2,
          OutlierHeader, OutlierLine ''score'' 1,
          PatternHeader,
          RecommendationHeader, AddressMissing [''score'', ''city''],
          CorrelationAdvice, FeatureSelectionAdvice]"
proof -
  have "\<not> schema_accepts_focus ''all''"
    by (simp add: schema_accepts_focus_def focus_enum_def)
  moreover have "schema_accepts_focus ''overview''" "schema_accepts_focus ''outliers''"
    "schema_accepts_focus ''patterns''" "schema_accepts_focus ''recommendations''"
    by (simp_all add: schema_accepts_focus_def focus_enum_def)
  moreover have "focus_default = ''overview''"
    by (simp add: focus_default_def)
  moreover have "fst (handle_call_tool example_env ''generate_insights''
            (insights_arguments ''survey'' ''all'') survey_server)
     = DataInsights ''survey''
         [OverviewHeader, RecordsFeatures 7 3, DataTypes [(Numeric, 2), (Object, 1)],
          NumericColumns 2,
          OutlierHeader, OutlierLine ''score'' 1,
          PatternHeader,
          RecommendationHeader, AddressMissing [''score'', ''city''],
          CorrelationAdvice, FeatureSelectionAdvice]"
    by code_simp
  ultimately show ?thesis by simp
qed

end
